theory Spec2Isabelle
  imports Main
begin

section \<open>Strings: \<open>str.lower\<close>, the \<open>in\<close> operator and \<open>str.split\<close>\<close>

text \<open>
  Texts are modelled as \<^typ>\<open>string\<close>: the UTF-8 bytes of the Python text. Every
  keyword of the program is ASCII, and an ASCII text occurs in a Python string exactly
  when its bytes occur in the UTF-8 bytes of that string.

  Python's \<open>str.lower\<close> is not fixed here. It maps some characters beyond ASCII to ASCII
  letters (the Kelvin sign U+212A to \<open>k\<close>, U+0130 to \<open>i\<close> and a combining dot), so it
  can bring a keyword into a text that has none of its bytes. Every function of the
  source that calls \<open>str.lower\<close> takes it as its first argument \<open>str_lower\<close>, and what is
  proved holds for every function in that place. Where a statement depends on the
  value of \<open>str.lower\<close> at one given text, that value is a hypothesis.

  \<open>ascii_lower\<close> is \<open>str.lower\<close> on ASCII text, where only the letters \<open>A\<close> to \<open>Z\<close>
  (codes 65 to 90) change. It stands for \<open>str.lower\<close> in the examples, whose texts are
  all ASCII.
\<close>

definition lower_char :: "char \<Rightarrow> char" where
  "lower_char c =
     (let n = (of_char c :: nat) in if 65 \<le> n \<and> n \<le> 90 then char_of (n + 32) else c)"

definition ascii_lower :: "string \<Rightarrow> string" where
  "ascii_lower s = map lower_char s"

text \<open>\<open>startswith s p\<close> is \<open>s.startswith(p)\<close>.\<close>

fun startswith :: "string \<Rightarrow> string \<Rightarrow> bool" where
  "startswith s [] = True"
| "startswith [] (p # ps) = False"
| "startswith (c # cs) (p # ps) = (c = p \<and> startswith cs ps)"

text \<open>\<open>str_in k s\<close> is Python's \<open>k in s\<close> on strings: \<open>k\<close> occurs in \<open>s\<close> as a
  contiguous substring.\<close>

fun str_in :: "string \<Rightarrow> string \<Rightarrow> bool" where
  "str_in k [] = (k = [])"
| "str_in k (c # cs) = (startswith (c # cs) k \<or> str_in k cs)"

text \<open>\<open>any_in ws s\<close> is \<open>any(word in s for word in ws)\<close>.\<close>

definition any_in :: "string list \<Rightarrow> string \<Rightarrow> bool" where
  "any_in ws s = list_ex (\<lambda>word. str_in word s) ws"

text \<open>\<open>split sep s\<close> is \<open>s.split(sep)\<close> for a one-character separator; the result
  always has at least one piece.\<close>

fun split :: "char \<Rightarrow> string \<Rightarrow> string list" where
  "split sep [] = [[]]"
| "split sep (c # cs) =
     (if c = sep then [] # split sep cs
      else (case split sep cs of
              [] \<Rightarrow> [[c]]
            | w # ws \<Rightarrow> (c # w) # ws))"

section \<open>Values exchanged with the caller\<close>

text \<open>The tools return dictionaries of strings, lists and nested dictionaries. A
  dictionary is an association list in insertion order with distinct keys.\<close>

datatype json =
    JNull
  | JStr string
  | JInt int
  | JList "json list"
  | JDict "(string \<times> json) list"

text \<open>\<open>dict_get d k\<close> is \<open>d.get(k)\<close>; on anything but a dictionary there is no field.\<close>

fun dict_get :: "json \<Rightarrow> string \<Rightarrow> json option" where
  "dict_get (JDict kvs) k = map_of kvs k"
| "dict_get _ k = None"

text \<open>\<open>json_len v\<close> is \<open>len(v)\<close>; a number or \<open>None\<close> has no length.\<close>

fun json_len :: "json \<Rightarrow> nat option" where
  "json_len (JStr s) = Some (length s)"
| "json_len (JList xs) = Some (length xs)"
| "json_len (JDict kvs) = Some (length kvs)"
| "json_len _ = None"

text \<open>\<open>get_or d k dflt\<close> is \<open>d.get(k, dflt)\<close> on a table kept as an association
  list.\<close>

definition get_or :: "('k \<times> 'v) list \<Rightarrow> 'k \<Rightarrow> 'v \<Rightarrow> 'v" where
  "get_or d k dflt = (case map_of d k of Some v \<Rightarrow> v | None \<Rightarrow> dflt)"

section \<open>The hardcoded tables\<close>

definition BASIC_MEDICINES :: "(string \<times> (string \<times> string) list) list" where
  "BASIC_MEDICINES =
    [(''fever'',
        [(''medicine'', ''Paracetamol''),
         (''dose'', ''500mg every 6-8 hours''),
         (''max_daily'', ''4g (4000mg)''),
         (''warning'', ''Don't exceed maximum daily dose''),
         (''age_restriction'', ''Not for children under 3 months'')]),
     (''headache'',
        [(''medicine'', ''Paracetamol or Ibuprofen''),
         (''dose'', ''Paracetamol: 500mg OR Ibuprofen: 200-400mg''),
         (''frequency'', ''every 6-8 hours''),
         (''warning'', ''Don't take both together''),
         (''age_restriction'', ''Ibuprofen not for children under 6 months'')]),
     (''pain'',
        [(''medicine'', ''Ibuprofen''),
         (''dose'', ''200-400mg every 6-8 hours''),
         (''max_daily'', ''1200mg''),
         (''warning'', ''Take with food to avoid stomach upset''),
         (''age_restriction'', ''Not for children under 6 months'')]),
     (''cold'',
        [(''medicine'', ''Paracetamol for fever/pain''),
         (''dose'', ''500mg every 6-8 hours''),
         (''additional'', ''ORS for hydration if needed''),
         (''warning'', ''No antibiotics for viral cold'')])]"

definition HOME_REMEDIES :: "(string \<times> string list) list" where
  "HOME_REMEDIES =
    [(''fever'',
        [''Rest and drink plenty of fluids (water, fruit juices)'',
         ''Cool compress on forehead and wrists'',
         ''Light, loose cotton clothing'',
         ''Room temperature bath or sponging'',
         ''Avoid heavy meals, eat light foods'']),
     (''cough'',
        [''Honey and warm water (1 tsp honey in warm water)'',
         ''Steam inhalation (hot water bowl with towel over head)'',
         ''Gargle with warm salt water (1/2 tsp salt in warm water)'',
         ''Stay hydrated with warm fluids'',
         ''Elevate head while sleeping'']),
     (''headache'',
        [''Rest in dark, quiet room'',
         ''Cold compress on forehead or warm compress on neck'',
         ''Stay hydrated - drink water'',
         ''Gentle neck and shoulder massage'',
         ''Avoid loud noises and bright lights'']),
     (''cold'',
        [''Rest and get adequate sleep'',
         ''Warm fluids (herbal tea, warm water with honey)'',
         ''Saline nasal rinse or drops'',
         ''Humidifier or steam inhalation'',
         ''Throat lozenges for sore throat'']),
     (''stomach_upset'',
        [''BRAT diet (Bananas, Rice, Applesauce, Toast)'',
         ''Stay hydrated with ORS or clear fluids'',
         ''Ginger tea for nausea'',
         ''Avoid dairy, fatty, or spicy foods'',
         ''Rest and avoid stress''])]"

definition EMERGENCY_KEYWORDS :: "string list" where
  "EMERGENCY_KEYWORDS =
    [''chest pain'', ''difficulty breathing'', ''unconscious'',
     ''severe bleeding'', ''stroke'', ''heart attack'', ''poisoning'',
     ''severe headache'', ''high fever above 103'', ''seizure'',
     ''suicide'', ''self harm'', ''overdose'', ''choking'',
     ''severe abdominal pain'', ''severe vomiting'', ''blood in vomit'',
     ''blood in stool'', ''severe diarrhea'', ''dehydration signs'']"

section \<open>Helper methods of the server\<close>

definition identify_condition :: "string \<Rightarrow> string" where
  "identify_condition symptoms_lower =
     (if any_in [''fever'', ''temperature'', ''hot'', ''burning''] symptoms_lower then ''fever''
      else if any_in [''headache'', ''head pain'', ''migraine''] symptoms_lower then ''headache''
      else if any_in [''cough'', ''coughing''] symptoms_lower then ''cough''
      else if any_in [''cold'', ''runny nose'', ''sore throat'', ''sneezing''] symptoms_lower
        then ''cold''
      else if any_in [''stomach'', ''nausea'', ''vomiting'', ''diarrhea''] symptoms_lower
        then ''stomach_upset''
      else if any_in [''pain'', ''ache'', ''hurt''] symptoms_lower then ''pain''
      else ''general'')"

definition determine_triage_level :: "string \<Rightarrow> string \<Rightarrow> string" where
  "determine_triage_level symptoms_lower condition =
     (if any_in [''severe'', ''extreme'', ''unbearable'', ''intense''] symptoms_lower
        then ''urgent''
      else if any_in [''high fever'', ''103'', ''persistent'', ''worsening''] symptoms_lower
        then ''routine''
      else ''self_care'')"

definition map_condition_to_medicine :: "string \<Rightarrow> string" where
  "map_condition_to_medicine condition_lower =
     (if any_in [''fever'', ''temperature''] condition_lower then ''fever''
      else if any_in [''headache'', ''head pain''] condition_lower then ''headache''
      else if any_in [''pain'', ''ache''] condition_lower then ''pain''
      else if any_in [''cold'', ''cough''] condition_lower then ''cold''
      else '''')"


text \<open>Some messages of the source start with characters beyond ASCII; they are kept
  as the bytes of the source file.\<close>

definition siren_mark :: string where
  "siren_mark = [CHR 0xEF, CHR 0xA3, CHR 0xBF, CHR 0xC3, CHR 0xBC, CHR 0xC3, CHR 0xB6, CHR 0xC2, CHR 0xAE]"

definition warning_mark :: string where
  "warning_mark = [CHR 0xE2, CHR 0x80, CHR 0x9A, CHR 0xC3, CHR 0xB6, CHR 0xE2, CHR 0x80, CHR 0xA0, CHR 0xC3, CHR 0x94, CHR 0xE2, CHR 0x88, CHR 0x8F, CHR 0xC3, CHR 0xA8]"

definition house_mark :: string where
  "house_mark = [CHR 0xEF, CHR 0xA3, CHR 0xBF, CHR 0xC3, CHR 0xBC, CHR 0xC3, CHR 0xA8, CHR 0xE2, CHR 0x80, CHR 0xA0]"

definition degree_mark :: string where
  "degree_mark = [CHR 0xC2, CHR 0xAC, CHR 0xE2, CHR 0x88, CHR 0x9E]"

definition get_follow_up_advice :: "string \<Rightarrow> string" where
  "get_follow_up_advice triage_level =
     get_or
        [(''emergency'', ''Seek immediate medical attention''),
         (''urgent'', ''See a doctor within 24 hours''),
         (''routine'',
            ''Schedule appointment with doctor within 1-2 weeks if symptoms persist''),
         (''self_care'',
            ''Monitor symptoms. See doctor if they worsen or persist beyond 3-5 days'')]
        triage_level ''Consult healthcare professional if concerned''"

definition warning_signs_general :: "string list" where
  "warning_signs_general =
     [''Worsening symptoms'', ''New severe symptoms'', ''Signs of dehydration'']"

definition get_warning_signs :: "string \<Rightarrow> string list" where
  "get_warning_signs condition =
     get_or
        [(''fever'',
            [''Temperature above 103'' @ degree_mark @ ''F (39.4'' @ degree_mark @ ''C)'',
             ''Persistent fever beyond 3 days'', ''Difficulty breathing'']),
         (''headache'',
            [''Sudden severe headache'', ''Headache with neck stiffness'',
             ''Changes in vision'']),
         (''cough'', [''Blood in cough'', ''Difficulty breathing'', ''Chest pain'']),
         (''cold'', [''High fever'', ''Severe throat pain'', ''Ear pain'']),
         (''general'', warning_signs_general)]
        condition warning_signs_general"

section \<open>The server and its session log\<close>

record server =
  sessions :: "json list"
  google_api_key :: "string option"

text \<open>\<open>slice_from xs i\<close> is the Python slice \<open>xs[i:]\<close>: a negative start counts from
  the end and is clipped at the front of the list.\<close>

definition slice_from :: "'a list \<Rightarrow> int \<Rightarrow> 'a list" where
  "slice_from xs i =
     (if i < 0 then drop (nat (int (length xs) + i)) xs else drop (nat i) xs)"

definition log_session :: "server \<Rightarrow> json \<Rightarrow> server" where
  "log_session self session_data =
     (let appended = sessions self @ [session_data]
      in self\<lparr>sessions :=
            (if length appended > 100 then slice_from appended (- 100) else appended)\<rparr>)"

definition get_session_logs :: "server \<Rightarrow> int \<Rightarrow> json" where
  "get_session_logs self limit =
     (let recent_sessions = slice_from (sessions self) (- limit)
      in JDict
          [(''total_sessions'', JInt (int (length (sessions self)))),
           (''recent_sessions'', JList recent_sessions),
           (''server_uptime'', JStr ''Running'')])"

text \<open>The \<open>get_session_logs\<close> branch of \<open>handle_mcp_request\<close>:
  \<open>params.get("limit", 10)\<close> with an integer limit.\<close>

definition handle_get_session_logs :: "server \<Rightarrow> int option \<Rightarrow> json" where
  "handle_get_session_logs self limit_param =
     get_session_logs self (case limit_param of None \<Rightarrow> 10 | Some limit \<Rightarrow> limit)"

section \<open>The tools\<close>

text \<open>Every tool takes the server, its arguments and \<open>now\<close>, the text that
  \<open>datetime.now().isoformat()\<close> gives when the session record is built, and returns its
  result with the server as the call leaves it. A tool that lowercases its text takes
  \<open>str_lower\<close> first.\<close>

definition str_dict :: "(string \<times> string) list \<Rightarrow> json" where
  "str_dict kvs = JDict (map (\<lambda>(k, v). (k, JStr v)) kvs)"

definition str_list :: "string list \<Rightarrow> json" where
  "str_list xs = JList (map JStr xs)"

text \<open>The loop of \<open>analyze_symptoms\<close> that collects the emergency keywords.\<close>

definition detect_emergencies :: "string \<Rightarrow> string list" where
  "detect_emergencies symptoms_lower =
     fold (\<lambda>keyword detected_emergencies.
             if str_in keyword symptoms_lower then detected_emergencies @ [keyword]
             else detected_emergencies)
          EMERGENCY_KEYWORDS []"

definition analyze_symptoms ::
  "(string \<Rightarrow> string) \<Rightarrow> server \<Rightarrow> string \<Rightarrow> string \<Rightarrow> string option \<Rightarrow> string
     \<Rightarrow> json \<times> server" where
  "analyze_symptoms str_lower self symptoms age location now =
     (let symptoms_lower = str_lower symptoms;
          detected_emergencies = detect_emergencies symptoms_lower
      in if detected_emergencies \<noteq> [] then
           (JDict
             [(''triage_level'', JStr ''emergency''),
              (''message'', JStr (siren_mark @
                 '' EMERGENCY DETECTED: Call 102/108 immediately or visit nearest hospital'')),
              (''action'', JStr ''seek_immediate_help''),
              (''detected_red_flags'', str_list detected_emergencies),
              (''emergency_contacts'',
                 str_dict [(''ambulance'', ''102 / 108''), (''police'', ''100''),
                           (''fire'', ''101'')]),
              (''disclaimer'', JStr
                 ''This is a medical emergency. Get professional medical help immediately.'')],
            self)
         else
           (let condition = identify_condition symptoms_lower;
                triage_level = determine_triage_level symptoms_lower condition;
                medicine_info = get_or BASIC_MEDICINES condition [];
                remedies = get_or HOME_REMEDIES condition
                             [''Rest'', ''Stay hydrated'', ''Monitor symptoms''];
                result = JDict
                  [(''triage_level'', JStr triage_level),
                   (''condition'', JStr condition),
                   (''assessment'', JStr (''Based on symptoms: '' @ symptoms)),
                   (''medicine_suggestion'', str_dict medicine_info),
                   (''home_remedies'', str_list remedies),
                   (''follow_up'', JStr (get_follow_up_advice triage_level)),
                   (''warning_signs'', str_list (get_warning_signs condition)),
                   (''disclaimer'', JStr (warning_mark @
                      '' This is informational only. Consult a healthcare professional for medical advice.''))]
            in (result,
                log_session self
                  (JDict [(''type'', JStr ''symptom_analysis''),
                          (''input'', JStr symptoms),
                          (''output'', result),
                          (''timestamp'', JStr now)]))))"

definition suggest_medicine ::
  "(string \<Rightarrow> string) \<Rightarrow> server \<Rightarrow> string \<Rightarrow> string \<Rightarrow> string \<Rightarrow> json \<times> server" where
  "suggest_medicine str_lower self condition age now =
     (let condition_lower = str_lower condition;
          medicine_key = map_condition_to_medicine condition_lower;
          medicine_info = get_or BASIC_MEDICINES medicine_key []
      in if medicine_info = [] then
           (JDict
             [(''message'', JStr
                 ''Please consult a pharmacist for specific medicine recommendations''),
              (''general_advice'', JStr ''Only use medicines as directed on the package''),
              (''common_otc'', JStr ''Paracetamol for fever/pain, ORS for dehydration''),
              (''disclaimer'', JStr
                 ''This tool only suggests common OTC medicines for basic symptoms'')],
            self)
         else
           (let warnings = [get_or medicine_info ''warning'' []] @
                  (case map_of medicine_info ''age_restriction'' of
                     Some age_restriction \<Rightarrow> [age_restriction]
                   | None \<Rightarrow> []);
                result = JDict
                  [(''condition'', JStr condition),
                   (''recommended_medicine'', JStr (get_or medicine_info ''medicine'' [])),
                   (''dosage'', JStr (get_or medicine_info ''dose'' [])),
                   (''frequency'', JStr (get_or medicine_info ''frequency'' ''As needed'')),
                   (''max_daily'', JStr (get_or medicine_info ''max_daily'' [])),
                   (''warnings'', str_list warnings),
                   (''disclaimer'', JStr (warning_mark @
                      '' Only use as directed. Consult pharmacist if unsure. Not for prescription medicines.''))]
            in (result,
                log_session self
                  (JDict [(''type'', JStr ''medicine_suggestion''),
                          (''input'', JStr condition),
                          (''output'', result),
                          (''timestamp'', JStr now)]))))"

text \<open>The test of one remedy-table key against the lowercased condition text.\<close>

definition key_matches :: "string \<Rightarrow> string \<Rightarrow> bool" where
  "key_matches key condition_lower =
     (str_in key condition_lower \<or> any_in (split CHR ''_'' key) condition_lower)"

text \<open>The first loop of \<open>get_home_remedies\<close>, over the table in insertion order; it
  yields \<open>(remedies, matched_conditions)\<close>.\<close>

definition find_remedies :: "string \<Rightarrow> string list \<times> string list" where
  "find_remedies condition_lower =
     fold (\<lambda>(key, remedy_list) (remedies, matched_conditions).
             if key_matches key condition_lower
             then (remedies @ remedy_list, matched_conditions @ [key])
             else (remedies, matched_conditions))
          HOME_REMEDIES ([], [])"

text \<open>The second loop: remove duplicates while preserving order.\<close>

definition unique :: "string list \<Rightarrow> string list" where
  "unique remedies =
     fold (\<lambda>remedy unique_remedies.
             if remedy \<notin> set unique_remedies then unique_remedies @ [remedy]
             else unique_remedies)
          remedies []"

definition get_home_remedies ::
  "(string \<Rightarrow> string) \<Rightarrow> server \<Rightarrow> string \<Rightarrow> string \<Rightarrow> json \<times> server" where
  "get_home_remedies str_lower self condition now =
     (let condition_lower = str_lower condition;
          (remedies, matched_conditions) = find_remedies condition_lower;
          unique_remedies = unique remedies;
          (unique_remedies, matched_conditions) =
            (if unique_remedies = [] then
               ([''Rest and stay hydrated with plenty of fluids'',
                 ''Monitor your symptoms carefully'',
                 ''Seek medical advice if symptoms worsen or persist'',
                 ''Maintain good hygiene and nutrition''],
                [''general''])
             else (unique_remedies, matched_conditions));
          result = JDict
            [(''condition'', JStr condition),
             (''matched_categories'', str_list matched_conditions),
             (''remedies'', str_list unique_remedies),
             (''general_tips'', str_list
                [''Home remedies work best alongside proper rest'',
                 ''Stay hydrated throughout treatment'',
                 ''If symptoms worsen, seek medical help'']),
             (''disclaimer'', JStr (house_mark @
                '' Home remedies are supportive care only. Not a substitute for professional medical advice'')),
             (''warning'', JStr (warning_mark @
                '' Seek medical help if symptoms are severe or worsen''))]
      in (result,
          log_session self
            (JDict [(''type'', JStr ''home_remedies''),
                    (''input'', JStr condition),
                    (''output'', result),
                    (''timestamp'', JStr now)])))"

text \<open>
  \<open>find_nearby_chemists\<close> calls the places service inside a \<open>try\<close> block. The block's
  outcome is the argument \<open>search\<close>: \<open>Inl msg\<close> when anything in the block raises an
  exception \<open>e\<close> with \<open>str(e) = msg\<close>, \<open>Inr chemists\<close> when the block ends with the list
  \<open>chemists\<close> built from the service's reply. \<open>radius_km\<close> is passed through as given.
  The clock is read twice: \<open>search_time\<close> is the reading inside the block, for
  \<open>search_timestamp\<close>, and \<open>now\<close> the later one for the session record.
\<close>

definition common_chains :: "string list" where
  "common_chains =
     [''Apollo Pharmacy'', ''MedPlus'', ''Netmeds'', ''1mg'', ''Guardian Pharmacy'']"

definition find_nearby_chemists ::
  "server \<Rightarrow> string \<Rightarrow> json \<Rightarrow> (string + json list) \<Rightarrow> string \<Rightarrow> string
     \<Rightarrow> json \<times> server" where
  "find_nearby_chemists self location radius_km search search_time now =
     (if google_api_key self = None \<or> google_api_key self = Some []
         \<or> google_api_key self = Some ''your_google_places_api_key_here'' then
        (JDict
          [(''error'', JStr ''Google Places API key not configured''),
           (''message'', JStr ''Please add your Google Places API key to .env file''),
           (''manual_search'', JStr
              (''Search for '' @ [CHR 0x27] @ ''pharmacy near '' @ location @ [CHR 0x27]
                 @ '' on Google Maps'')),
           (''common_chains'', str_list common_chains)],
         self)
      else
        (let result =
           (case search of
              Inr chemists \<Rightarrow> JDict
                [(''location'', JStr location),
                 (''radius_km'', radius_km),
                 (''total_found'', JInt (int (length chemists))),
                 (''chemists'', JList chemists),
                 (''search_timestamp'', JStr search_time),
                 (''note'', JStr ''Call ahead to confirm medicine availability'')]
            | Inl msg \<Rightarrow> JDict
                [(''error'', JStr (''Failed to search chemists: '' @ msg)),
                 (''fallback'', JStr ''Try searching 'pharmacy near me' on Google Maps''),
                 (''common_chains'', str_list common_chains)])
         in (result,
             log_session self
               (JDict [(''type'', JStr ''chemist_search''),
                       (''input'', JStr location),
                       (''output'', result),
                       (''timestamp'', JStr now)]))))"

section \<open>Notions of the specification\<close>

text \<open>The classifier as the specification words it: the tags in their priority order,
  each with its keywords, and the first tag with a keyword in the text.\<close>

definition CONDITION_PRIORITY :: "(string \<times> string list) list" where
  "CONDITION_PRIORITY =
     [(''fever'', [''fever'', ''temperature'', ''hot'', ''burning'']),
      (''headache'', [''headache'', ''head pain'', ''migraine'']),
      (''cough'', [''cough'', ''coughing'']),
      (''cold'', [''cold'', ''runny nose'', ''sore throat'', ''sneezing'']),
      (''stomach_upset'', [''stomach'', ''nausea'', ''vomiting'', ''diarrhea'']),
      (''pain'', [''pain'', ''ache'', ''hurt''])]"

definition first_matching_tag :: "string \<Rightarrow> string" where
  "first_matching_tag s =
     (case find (\<lambda>(tag, keywords). any_in keywords s) CONDITION_PRIORITY of
        Some (tag, keywords) \<Rightarrow> tag
      | None \<Rightarrow> ''general'')"

text \<open>A session record with its four fields.\<close>

definition SessionRecord :: "string \<Rightarrow> string \<Rightarrow> json \<Rightarrow> string \<Rightarrow> json" where
  "SessionRecord type input output timestamp =
     JDict [(''type'', JStr type), (''input'', JStr input), (''output'', output),
            (''timestamp'', JStr timestamp)]"

text \<open>The most recent \<open>n\<close> entries of a list, oldest first.\<close>

definition most_recent :: "nat \<Rightarrow> 'a list \<Rightarrow> 'a list" where
  "most_recent n xs = drop (length xs - n) xs"

text \<open>Appending a sequence of records, one \<open>_log_session\<close> call each.\<close>

definition log_all :: "server \<Rightarrow> json list \<Rightarrow> server" where
  "log_all self records = fold (\<lambda>record s. log_session s record) records self"

text \<open>The remedy-table entries that a condition text matches, in table order.\<close>

definition matched_entries ::
  "(string \<Rightarrow> string) \<Rightarrow> string \<Rightarrow> (string \<times> string list) list" where
  "matched_entries str_lower condition =
     filter (\<lambda>(key, remedy_list). key_matches key (str_lower condition)) HOME_REMEDIES"

text \<open>Duplicates removed, every element kept at its first occurrence.\<close>

fun first_seen :: "'a list \<Rightarrow> 'a list" where
  "first_seen [] = []"
| "first_seen (x # xs) = x # first_seen (removeAll x xs)"

section \<open>Substring search\<close>

lemma startswith_iff: "startswith s p \<longleftrightarrow> (\<exists>q. s = p @ q)"
  by (induction s p rule: startswith.induct) auto

text \<open>\<open>str_in\<close> is containment as a contiguous substring.\<close>

lemma str_in_iff: "str_in k s \<longleftrightarrow> (\<exists>p q. s = p @ k @ q)"
proof (induction s)
  case Nil
  then show ?case by simp
next
  case (Cons c cs)
  show ?case
  proof
    assume "str_in k (c # cs)"
    then consider "startswith (c # cs) k" | "str_in k cs" by auto
    then show "\<exists>p q. c # cs = p @ k @ q"
    proof cases
      case 1
      then obtain q where "c # cs = k @ q" by (auto simp: startswith_iff)
      then have "c # cs = [] @ k @ q" by simp
      then show ?thesis by blast
    next
      case 2
      then obtain p q where "cs = p @ k @ q" using Cons.IH by blast
      then have "c # cs = (c # p) @ k @ q" by simp
      then show ?thesis by blast
    qed
  next
    assume "\<exists>p q. c # cs = p @ k @ q"
    then obtain p q where pq: "c # cs = p @ k @ q" by blast
    show "str_in k (c # cs)"
    proof (cases p)
      case Nil
      with pq have "startswith (c # cs) k" by (auto simp: startswith_iff)
      then show ?thesis by simp
    next
      case (Cons a p')
      with pq have "cs = p' @ k @ q" by simp
      then have "str_in k cs" using Cons.IH by blast
      then show ?thesis by simp
    qed
  qed
qed

lemma any_in_iff: "any_in ws s \<longleftrightarrow> (\<exists>w\<in>set ws. str_in w s)"
  by (simp add: any_in_def list_ex_iff)

lemma split_not_Nil: "split sep s \<noteq> []"
  by (induction s) (auto split: list.splits)

section \<open>The emergency check of \<open>analyze_symptoms\<close>\<close>

lemma fold_collect:
  "fold (\<lambda>x acc. if P x then acc @ [x] else acc) xs acc = acc @ filter P xs"
  by (induction xs arbitrary: acc) simp_all

lemma detect_emergencies_filter:
  "detect_emergencies s = filter (\<lambda>keyword. str_in keyword s) EMERGENCY_KEYWORDS"
  unfolding detect_emergencies_def by (simp only: fold_collect append_Nil)

lemma detect_emergencies_empty:
  "detect_emergencies s = [] \<longleftrightarrow> (\<forall>k\<in>set EMERGENCY_KEYWORDS. \<not> str_in k s)"
  unfolding detect_emergencies_filter by (simp only: filter_empty_conv)

lemma analyze_symptoms_emergency:
  assumes "detect_emergencies (str_lower symptoms) \<noteq> []"
  shows "analyze_symptoms str_lower self symptoms age location now =
     (JDict
       [(''triage_level'', JStr ''emergency''),
        (''message'', JStr (siren_mark @
           '' EMERGENCY DETECTED: Call 102/108 immediately or visit nearest hospital'')),
        (''action'', JStr ''seek_immediate_help''),
        (''detected_red_flags'', str_list (detect_emergencies (str_lower symptoms))),
        (''emergency_contacts'',
           str_dict [(''ambulance'', ''102 / 108''), (''police'', ''100''),
                     (''fire'', ''101'')]),
        (''disclaimer'', JStr
           ''This is a medical emergency. Get professional medical help immediately.'')],
      self)"
  unfolding analyze_symptoms_def Let_def using assms by simp

lemma analyze_symptoms_triage:
  assumes "detect_emergencies (str_lower symptoms) = []"
  shows "dict_get (fst (analyze_symptoms str_lower self symptoms age location now)) ''triage_level''
     = Some (JStr (determine_triage_level (str_lower symptoms)
                     (identify_condition (str_lower symptoms))))"
  unfolding analyze_symptoms_def Let_def using assms by simp

lemma analyze_symptoms_logged:
  assumes "detect_emergencies (str_lower symptoms) = []"
  shows "snd (analyze_symptoms str_lower self symptoms age location now) =
     log_session self
       (JDict [(''type'', JStr ''symptom_analysis''),
               (''input'', JStr symptoms),
               (''output'', fst (analyze_symptoms str_lower self symptoms age location now)),
               (''timestamp'', JStr now)])"
  unfolding analyze_symptoms_def Let_def using assms by simp

text \<open>
  Claim C1. For every symptoms text that contains at least one emergency keyword as a
  case-insensitive substring, \<open>analyze_symptoms\<close> returns a result with
  \<open>triage_level = "emergency"\<close>, whatever condition keywords occur beside it, and its
  \<open>detected_red_flags\<close> field holds every emergency keyword that occurs in the text, in
  the order of the emergency-keyword table.
\<close>

theorem emergency_overrides:
  assumes "\<exists>keyword\<in>set EMERGENCY_KEYWORDS. str_in keyword (str_lower symptoms)"
  shows "dict_get (fst (analyze_symptoms str_lower self symptoms age location now)) ''triage_level''
           = Some (JStr ''emergency'')
       \<and> dict_get (fst (analyze_symptoms str_lower self symptoms age location now))
           ''detected_red_flags''
           = Some (str_list (filter (\<lambda>keyword. str_in keyword (str_lower symptoms))
                               EMERGENCY_KEYWORDS))"
proof -
  from assms have ne: "detect_emergencies (str_lower symptoms) \<noteq> []"
    by (simp only: detect_emergencies_empty) blast
  show ?thesis
    unfolding analyze_symptoms_emergency [where str_lower = str_lower and symptoms = symptoms, OF ne]
    by (simp add: detect_emergencies_filter)
qed

theorem emergency_overrides_witness:
  "(\<exists>keyword\<in>set EMERGENCY_KEYWORDS.
      str_in keyword (ascii_lower ''Severe CHEST pain, fever and Difficulty Breathing''))
   \<and> dict_get (fst (analyze_symptoms ascii_lower \<lparr>sessions = [], google_api_key = None\<rparr>
         ''Severe CHEST pain, fever and Difficulty Breathing'' ''adult'' None
         ''2025-08-09T10:00:00'')) ''triage_level'' = Some (JStr ''emergency'')
   \<and> dict_get (fst (analyze_symptoms ascii_lower \<lparr>sessions = [], google_api_key = None\<rparr>
         ''Severe CHEST pain, fever and Difficulty Breathing'' ''adult'' None
         ''2025-08-09T10:00:00'')) ''detected_red_flags''
       = Some (JList [JStr ''chest pain'', JStr ''difficulty breathing''])"
proof -
  have h: "\<exists>keyword\<in>set EMERGENCY_KEYWORDS.
      str_in keyword (ascii_lower ''Severe CHEST pain, fever and Difficulty Breathing'')"
    by code_simp
  have f: "str_list (filter (\<lambda>keyword. str_in keyword
        (ascii_lower ''Severe CHEST pain, fever and Difficulty Breathing'')) EMERGENCY_KEYWORDS)
      = JList [JStr ''chest pain'', JStr ''difficulty breathing'']"
    by code_simp
  from emergency_overrides
    [where str_lower = ascii_lower and symptoms = "''Severe CHEST pain, fever and Difficulty Breathing''", OF h] show ?thesis
    unfolding f using h by blast
qed

text \<open>
  A keyword can come into the text by lowercasing alone. With the Kelvin sign (U+212A,
  the bytes E2 84 AA) in place of \<open>K\<close>, \<open>str.lower\<close> turns the text below into
  \<open>chest pain stroke\<close>, and both keywords are reported.
\<close>

lemma kelvin_sign_is_emergency:
  assumes "str_lower (''chest pain STRO'' @ [CHR 0xE2, CHR 0x84, CHR 0xAA] @ ''E'')
      = ''chest pain stroke''"
  shows "dict_get (fst (analyze_symptoms str_lower self
        (''chest pain STRO'' @ [CHR 0xE2, CHR 0x84, CHR 0xAA] @ ''E'') age location now))
      ''detected_red_flags'' = Some (JList [JStr ''chest pain'', JStr ''stroke''])"
proof -
  have "detect_emergencies ''chest pain stroke'' = [''chest pain'', ''stroke'']"
    by code_simp
  with assms have d: "detect_emergencies
      (str_lower (''chest pain STRO'' @ [CHR 0xE2, CHR 0x84, CHR 0xAA] @ ''E''))
      = [''chest pain'', ''stroke'']"
    by (simp only:)
  then have ne: "detect_emergencies
      (str_lower (''chest pain STRO'' @ [CHR 0xE2, CHR 0x84, CHR 0xAA] @ ''E'')) \<noteq> []"
    by simp
  show ?thesis
    unfolding analyze_symptoms_emergency
      [where str_lower = str_lower
         and symptoms = "''chest pain STRO'' @ [CHR 0xE2, CHR 0x84, CHR 0xAA] @ ''E''", OF ne] d
    by (simp add: str_list_def)
qed

section \<open>Triage without an emergency keyword\<close>

text \<open>
  Claim C3. For every symptoms text containing no emergency keyword, the triage level
  is \<open>urgent\<close> if the text contains any of the severity words severe, extreme,
  unbearable, intense; otherwise \<open>routine\<close> if it contains any of high fever, 103,
  persistent, worsening; otherwise \<open>self_care\<close>.
\<close>

theorem triage_without_emergency:
  assumes "\<forall>keyword\<in>set EMERGENCY_KEYWORDS. \<not> str_in keyword (str_lower symptoms)"
  shows "dict_get (fst (analyze_symptoms str_lower self symptoms age location now)) ''triage_level''
     = Some (JStr
         (if \<exists>w\<in>set [''severe'', ''extreme'', ''unbearable'', ''intense''].
               str_in w (str_lower symptoms)
            then ''urgent''
          else if \<exists>w\<in>set [''high fever'', ''103'', ''persistent'', ''worsening''].
               str_in w (str_lower symptoms)
            then ''routine''
          else ''self_care''))"
proof -
  from assms have e: "detect_emergencies (str_lower symptoms) = []"
    by (simp only: detect_emergencies_empty)
  show ?thesis
    unfolding analyze_symptoms_triage [where str_lower = str_lower and symptoms = symptoms, OF e] determine_triage_level_def any_in_iff
    by (rule refl)
qed

theorem triage_without_emergency_witness:
  "\<not> (\<exists>keyword\<in>set EMERGENCY_KEYWORDS. str_in keyword (ascii_lower ''I have fever''))
   \<and> dict_get (fst (analyze_symptoms ascii_lower \<lparr>sessions = [], google_api_key = None\<rparr>
         ''I have fever'' ''adult'' None ''2025-08-09T10:00:00'')) ''triage_level''
       = Some (JStr ''self_care'')
   \<and> \<not> (\<exists>keyword\<in>set EMERGENCY_KEYWORDS. str_in keyword (ascii_lower ''Intense cough''))
   \<and> dict_get (fst (analyze_symptoms ascii_lower \<lparr>sessions = [], google_api_key = None\<rparr>
         ''Intense cough'' ''adult'' None ''2025-08-09T10:00:00'')) ''triage_level''
       = Some (JStr ''urgent'')
   \<and> \<not> (\<exists>keyword\<in>set EMERGENCY_KEYWORDS. str_in keyword (ascii_lower ''persistent cough''))
   \<and> dict_get (fst (analyze_symptoms ascii_lower \<lparr>sessions = [], google_api_key = None\<rparr>
         ''persistent cough'' ''adult'' None ''2025-08-09T10:00:00'')) ''triage_level''
       = Some (JStr ''routine'')"
proof -
  have h1: "\<forall>keyword\<in>set EMERGENCY_KEYWORDS. \<not> str_in keyword (ascii_lower ''I have fever'')"
    by code_simp
  have h2: "\<forall>keyword\<in>set EMERGENCY_KEYWORDS. \<not> str_in keyword (ascii_lower ''Intense cough'')"
    by code_simp
  have h3: "\<forall>keyword\<in>set EMERGENCY_KEYWORDS. \<not> str_in keyword (ascii_lower ''persistent cough'')"
    by code_simp
  have v1: "(if \<exists>w\<in>set [''severe'', ''extreme'', ''unbearable'', ''intense''].
               str_in w (ascii_lower ''I have fever'')
            then ''urgent''
          else if \<exists>w\<in>set [''high fever'', ''103'', ''persistent'', ''worsening''].
               str_in w (ascii_lower ''I have fever'')
            then ''routine''
          else ''self_care'') = ''self_care''"
    by code_simp
  have v2: "(if \<exists>w\<in>set [''severe'', ''extreme'', ''unbearable'', ''intense''].
               str_in w (ascii_lower ''Intense cough'')
            then ''urgent''
          else if \<exists>w\<in>set [''high fever'', ''103'', ''persistent'', ''worsening''].
               str_in w (ascii_lower ''Intense cough'')
            then ''routine''
          else ''self_care'') = ''urgent''"
    by code_simp
  have v3: "(if \<exists>w\<in>set [''severe'', ''extreme'', ''unbearable'', ''intense''].
               str_in w (ascii_lower ''persistent cough'')
            then ''urgent''
          else if \<exists>w\<in>set [''high fever'', ''103'', ''persistent'', ''worsening''].
               str_in w (ascii_lower ''persistent cough'')
            then ''routine''
          else ''self_care'') = ''routine''"
    by code_simp
  from triage_without_emergency [where str_lower = ascii_lower and symptoms = "''I have fever''", OF h1]
    triage_without_emergency [where str_lower = ascii_lower and symptoms = "''Intense cough''", OF h2]
    triage_without_emergency [where str_lower = ascii_lower and symptoms = "''persistent cough''", OF h3]
  show ?thesis unfolding v1 v2 v3 using h1 h2 h3 by blast
qed

section \<open>The condition classifier\<close>

text \<open>
  Claim C4. The condition classifier is total and follows a fixed priority order: it
  tests the tags fever, headache, cough, cold, stomach_upset, pain in that order,
  returns the first tag any of whose keywords occurs in the input, and returns
  \<open>general\<close> when none match; so a text with both a fever keyword and a headache
  keyword is classified as fever.
\<close>

theorem classifier_priority:
  "identify_condition s = first_matching_tag s
   \<and> identify_condition s \<in> set [''fever'', ''headache'', ''cough'', ''cold'',
         ''stomach_upset'', ''pain'', ''general'']
   \<and> ((\<exists>w\<in>set [''fever'', ''temperature'', ''hot'', ''burning'']. str_in w s)
        \<and> (\<exists>w\<in>set [''headache'', ''head pain'', ''migraine'']. str_in w s)
        \<longrightarrow> identify_condition s = ''fever'')"
proof (intro conjI impI)
  show "identify_condition s = first_matching_tag s"
    by (simp add: identify_condition_def first_matching_tag_def CONDITION_PRIORITY_def)
  show "identify_condition s \<in> set [''fever'', ''headache'', ''cough'', ''cold'',
         ''stomach_upset'', ''pain'', ''general'']"
    by (simp add: identify_condition_def)
next
  assume "(\<exists>w\<in>set [''fever'', ''temperature'', ''hot'', ''burning'']. str_in w s)
        \<and> (\<exists>w\<in>set [''headache'', ''head pain'', ''migraine'']. str_in w s)"
  then have "any_in [''fever'', ''temperature'', ''hot'', ''burning''] s"
    by (simp only: any_in_iff)
  then show "identify_condition s = ''fever''"
    by (simp add: identify_condition_def)
qed

theorem classifier_priority_witness:
  "(\<exists>w\<in>set [''fever'', ''temperature'', ''hot'', ''burning''].
       str_in w ''fever and headache since 2 days'')
   \<and> (\<exists>w\<in>set [''headache'', ''head pain'', ''migraine''].
       str_in w ''fever and headache since 2 days'')
   \<and> identify_condition ''fever and headache since 2 days'' = ''fever''
   \<and> first_matching_tag ''fever and headache since 2 days'' = ''fever''"
proof -
  have h1: "\<exists>w\<in>set [''fever'', ''temperature'', ''hot'', ''burning''].
       str_in w ''fever and headache since 2 days''"
    by code_simp
  have h2: "\<exists>w\<in>set [''headache'', ''head pain'', ''migraine''].
       str_in w ''fever and headache since 2 days''"
    by code_simp
  from classifier_priority [of "''fever and headache since 2 days''"] h1 h2
  show ?thesis by metis
qed

section \<open>The triage level and the condition tag\<close>

text \<open>
  Claim C10. The triage-level computation does not depend on the classified condition
  tag: for every symptoms text and any two condition tags the result is the same.
\<close>

theorem triage_ignores_condition:
  "determine_triage_level symptoms_lower c1 = determine_triage_level symptoms_lower c2"
  by (simp only: determine_triage_level_def)

theorem triage_ignores_condition_witness:
  "determine_triage_level ''severe cough'' ''cough'' = ''urgent''
   \<and> determine_triage_level ''severe cough'' ''fever'' = ''urgent''"
proof -
  have "determine_triage_level ''severe cough'' ''cough'' = ''urgent''"
    by code_simp
  with triage_ignores_condition [of "''severe cough''" "''fever''" "''cough''"]
  show ?thesis by simp
qed

section \<open>Medicine suggestions\<close>

lemma map_condition_to_medicine_range:
  "map_condition_to_medicine s \<in> set [''fever'', ''headache'', ''pain'', ''cold'', []]"
  by (simp add: map_condition_to_medicine_def)

lemma BASIC_MEDICINES_keys:
  "get_or BASIC_MEDICINES key [] \<noteq> [] \<longleftrightarrow>
     key \<in> set [''fever'', ''headache'', ''pain'', ''cold'']"
  by (simp add: BASIC_MEDICINES_def get_or_def)

lemma suggest_medicine_referral:
  assumes "get_or BASIC_MEDICINES (map_condition_to_medicine (str_lower condition)) [] = []"
  shows "suggest_medicine str_lower self condition age now =
     (JDict
       [(''message'', JStr
           ''Please consult a pharmacist for specific medicine recommendations''),
        (''general_advice'', JStr ''Only use medicines as directed on the package''),
        (''common_otc'', JStr ''Paracetamol for fever/pain, ORS for dehydration''),
        (''disclaimer'', JStr
           ''This tool only suggests common OTC medicines for basic symptoms'')],
      self)"
  unfolding suggest_medicine_def Let_def using assms by simp


lemma suggest_medicine_logged:
  assumes "get_or BASIC_MEDICINES (map_condition_to_medicine (str_lower condition)) [] \<noteq> []"
  shows "snd (suggest_medicine str_lower self condition age now) =
     log_session self
       (JDict [(''type'', JStr ''medicine_suggestion''),
               (''input'', JStr condition),
               (''output'', fst (suggest_medicine str_lower self condition age now)),
               (''timestamp'', JStr now)])"
  unfolding suggest_medicine_def Let_def using assms by simp



section \<open>The session log\<close>

lemma slice_from_negative:
  "0 < n \<Longrightarrow> slice_from xs (- int n) = most_recent n xs"
  by (simp add: slice_from_def most_recent_def nat_diff_distrib')

lemma slice_from_zero: "slice_from xs 0 = xs"
  by (simp add: slice_from_def)

lemma most_recent_short: "length xs \<le> n \<Longrightarrow> most_recent n xs = xs"
  by (simp add: most_recent_def)

lemma length_most_recent: "length (most_recent n xs) = min n (length xs)"
  by (simp add: most_recent_def)

lemma most_recent_append:
  "most_recent n (most_recent n xs @ ys) = most_recent n (xs @ ys)"
  by (cases "length xs \<le> n") (simp_all add: most_recent_def add.commute)

lemma sessions_log_session:
  "sessions (log_session self record) = most_recent 100 (sessions self @ [record])"
proof -
  have "slice_from (sessions self @ [record]) (- int 100)
      = most_recent 100 (sessions self @ [record])"
    by (rule slice_from_negative) simp
  then show ?thesis
    by (simp add: log_session_def Let_def most_recent_short)
qed

lemma sessions_log_all:
  "length (sessions self) \<le> 100 \<Longrightarrow>
     sessions (log_all self records) = most_recent 100 (sessions self @ records)"
  unfolding log_all_def
proof (induction records arbitrary: self)
  case Nil
  then show ?case by (simp add: most_recent_short)
next
  case (Cons r records)
  have "length (sessions (log_session self r)) \<le> 100"
    by (simp add: sessions_log_session length_most_recent)
  from Cons.IH [OF this] show ?case
    by (simp add: sessions_log_session most_recent_append)
qed

text \<open>
  Claim C5. The Session Log append operation always succeeds and trims the log to the
  most recent 100 entries after insertion, evicting oldest-first; after appending 105
  records to an empty log exactly 100 remain, the last 100 of the 105 in insertion
  order, and the log's length never exceeds 100.
\<close>

theorem session_log_cap:
  "sessions (log_session self record) = most_recent 100 (sessions self @ [record])
   \<and> length (sessions (log_session self record)) \<le> 100
   \<and> (sessions self = [] \<longrightarrow>
        sessions (log_all self records) = most_recent 100 records
        \<and> length (sessions (log_all self records)) \<le> 100)
   \<and> (sessions self = [] \<and> length records = 105 \<longrightarrow>
        sessions (log_all self records) = drop 5 records
        \<and> length (sessions (log_all self records)) = 100)"
proof (intro conjI impI)
  show "sessions (log_session self record) = most_recent 100 (sessions self @ [record])"
    by (rule sessions_log_session)
  show "length (sessions (log_session self record)) \<le> 100"
    by (simp add: sessions_log_session length_most_recent)
next
  assume e: "sessions self = []"
  then show a: "sessions (log_all self records) = most_recent 100 records"
    using sessions_log_all [of self records] by simp
  show "length (sessions (log_all self records)) \<le> 100"
    unfolding a by (simp add: length_most_recent)
next
  assume "sessions self = [] \<and> length records = 105"
  then have a: "sessions (log_all self records) = most_recent 100 records"
    and l: "length records = 105"
    using sessions_log_all [of self records] by simp_all
  from a l show "sessions (log_all self records) = drop 5 records"
    by (simp add: most_recent_def)
  from a l show "length (sessions (log_all self records)) = 100"
    by (simp add: length_most_recent)
qed

theorem session_log_cap_witness:
  "sessions \<lparr>sessions = [], google_api_key = None\<rparr> = []
   \<and> length (map (\<lambda>i. JInt (int i)) [0..<105]) = 105
   \<and> sessions (log_all \<lparr>sessions = [], google_api_key = None\<rparr>
         (map (\<lambda>i. JInt (int i)) [0..<105]))
       = map (\<lambda>i. JInt (int i)) [5..<105]
   \<and> length (sessions (log_all \<lparr>sessions = [], google_api_key = None\<rparr>
         (map (\<lambda>i. JInt (int i)) [0..<105]))) = 100"
proof -
  have h: "sessions \<lparr>sessions = [], google_api_key = None\<rparr> = []
      \<and> length (map (\<lambda>i. JInt (int i)) [0..<105]) = 105"
    by simp
  have d: "drop 5 (map (\<lambda>i. JInt (int i)) [0..<105]) = map (\<lambda>i. JInt (int i)) [5..<105]"
    by (simp add: drop_map)
  from session_log_cap [of "\<lparr>sessions = [], google_api_key = None\<rparr>" JNull
      "map (\<lambda>i. JInt (int i)) [0..<105]"] h
  have "sessions (log_all \<lparr>sessions = [], google_api_key = None\<rparr>
         (map (\<lambda>i. JInt (int i)) [0..<105]))
       = drop 5 (map (\<lambda>i. JInt (int i)) [0..<105])
     \<and> length (sessions (log_all \<lparr>sessions = [], google_api_key = None\<rparr>
         (map (\<lambda>i. JInt (int i)) [0..<105]))) = 100"
    by blast
  with h d show ?thesis by simp
qed

section \<open>Reading the session log\<close>

lemma get_session_logs_total:
  "dict_get (get_session_logs self limit) ''total_sessions''
     = Some (JInt (int (length (sessions self))))"
  by (simp add: get_session_logs_def Let_def)

lemma get_session_logs_positive:
  assumes "0 < limit"
  shows "dict_get (get_session_logs self limit) ''recent_sessions''
     = Some (JList (most_recent (nat limit) (sessions self)))"
proof -
  from assms have "slice_from (sessions self) (- int (nat limit))
      = most_recent (nat limit) (sessions self)"
    by (intro slice_from_negative) simp
  with assms show ?thesis
    by (simp add: get_session_logs_def Let_def)
qed

lemma get_session_logs_zero:
  "dict_get (get_session_logs self 0) ''recent_sessions'' = Some (JList (sessions self))"
  by (simp add: get_session_logs_def Let_def slice_from_zero)

lemma get_session_logs_negative:
  assumes "limit < 0"
  shows "dict_get (get_session_logs self limit) ''recent_sessions''
     = Some (JList (drop (nat (- limit)) (sessions self)))"
  using assms by (simp add: get_session_logs_def Let_def slice_from_def)

lemma handle_get_session_logs_default:
  "handle_get_session_logs self None = get_session_logs self 10"
  by (simp add: handle_get_session_logs_def)

section \<open>Home remedies\<close>

lemma fold_find_remedies:
  "fold (\<lambda>(key, remedy_list) (remedies, matched_conditions).
           if Q key then (remedies @ remedy_list, matched_conditions @ [key])
           else (remedies, matched_conditions)) table (rs, ms)
   = (rs @ concat (map snd (filter (\<lambda>(key, remedy_list). Q key) table)),
      ms @ map fst (filter (\<lambda>(key, remedy_list). Q key) table))"
  by (induction table arbitrary: rs ms) (simp_all add: case_prod_beta)

lemma find_remedies_matched:
  "find_remedies (str_lower condition) =
     (concat (map snd (matched_entries str_lower condition)), map fst (matched_entries str_lower condition))"
  unfolding find_remedies_def matched_entries_def
  by (simp only: fold_find_remedies append_Nil)

lemma removeAll_filter: "removeAll x (filter P xs) = filter (\<lambda>y. P y \<and> y \<noteq> x) xs"
  by (induction xs) auto

lemma fold_unique:
  "fold (\<lambda>remedy unique_remedies.
           if remedy \<notin> set unique_remedies then unique_remedies @ [remedy]
           else unique_remedies) xs acc
   = acc @ first_seen (filter (\<lambda>x. x \<notin> set acc) xs)"
proof (induction xs arbitrary: acc)
  case Nil
  then show ?case by simp
next
  case (Cons x xs)
  show ?case
  proof (cases "x \<in> set acc")
    case True
    then show ?thesis by (simp add: Cons.IH)
  next
    case False
    have "filter (\<lambda>y. y \<notin> set (acc @ [x])) xs
        = removeAll x (filter (\<lambda>y. y \<notin> set acc) xs)"
      by (simp add: removeAll_filter conj_commute)
    with False show ?thesis by (simp add: Cons.IH)
  qed
qed

lemma unique_first_seen: "unique remedies = first_seen remedies"
  unfolding unique_def by (simp add: fold_unique)

lemma set_first_seen: "set (first_seen xs) = set xs"
  by (induction xs rule: first_seen.induct) auto

lemma distinct_first_seen: "distinct (first_seen xs)"
  by (induction xs rule: first_seen.induct) (auto simp: set_first_seen)

lemma first_seen_Nil: "first_seen xs = [] \<longleftrightarrow> xs = []"
  by (cases xs) simp_all

lemma HOME_REMEDIES_nonempty: "\<forall>(key, remedy_list)\<in>set HOME_REMEDIES. remedy_list \<noteq> []"
  by (simp add: HOME_REMEDIES_def)

lemma matched_remedies_Nil:
  "concat (map snd (matched_entries str_lower condition)) = [] \<longleftrightarrow> matched_entries str_lower condition = []"
proof
  assume c: "concat (map snd (matched_entries str_lower condition)) = []"
  show "matched_entries str_lower condition = []"
  proof (rule ccontr)
    assume "matched_entries str_lower condition \<noteq> []"
    then obtain e where e: "e \<in> set (matched_entries str_lower condition)"
      by (cases "matched_entries str_lower condition") auto
    then have "e \<in> set HOME_REMEDIES" by (simp add: matched_entries_def)
    with HOME_REMEDIES_nonempty have "snd e \<noteq> []" by (auto simp: case_prod_beta)
    with e c show False by auto
  qed
qed simp

lemma get_home_remedies_fallback:
  assumes "matched_entries str_lower condition = []"
  shows "fst (get_home_remedies str_lower self condition now) =
     JDict
       [(''condition'', JStr condition),
        (''matched_categories'', str_list [''general'']),
        (''remedies'', str_list
           [''Rest and stay hydrated with plenty of fluids'',
            ''Monitor your symptoms carefully'',
            ''Seek medical advice if symptoms worsen or persist'',
            ''Maintain good hygiene and nutrition'']),
        (''general_tips'', str_list
           [''Home remedies work best alongside proper rest'',
            ''Stay hydrated throughout treatment'',
            ''If symptoms worsen, seek medical help'']),
        (''disclaimer'', JStr (house_mark @
           '' Home remedies are supportive care only. Not a substitute for professional medical advice'')),
        (''warning'', JStr (warning_mark @
           '' Seek medical help if symptoms are severe or worsen''))]"
  unfolding get_home_remedies_def Let_def find_remedies_matched unique_first_seen
  using assms by simp

lemma get_home_remedies_matched:
  assumes "matched_entries str_lower condition \<noteq> []"
  shows "fst (get_home_remedies str_lower self condition now) =
     JDict
       [(''condition'', JStr condition),
        (''matched_categories'', str_list (map fst (matched_entries str_lower condition))),
        (''remedies'', str_list
           (first_seen (concat (map snd (matched_entries str_lower condition))))),
        (''general_tips'', str_list
           [''Home remedies work best alongside proper rest'',
            ''Stay hydrated throughout treatment'',
            ''If symptoms worsen, seek medical help'']),
        (''disclaimer'', JStr (house_mark @
           '' Home remedies are supportive care only. Not a substitute for professional medical advice'')),
        (''warning'', JStr (warning_mark @
           '' Seek medical help if symptoms are severe or worsen''))]"
proof -
  from assms have "first_seen (concat (map snd (matched_entries str_lower condition))) \<noteq> []"
    using matched_remedies_Nil [of str_lower condition]
      first_seen_Nil [of "concat (map snd (matched_entries str_lower condition))"]
    by blast
  then show ?thesis
    unfolding get_home_remedies_def Let_def find_remedies_matched unique_first_seen
    by simp
qed

lemma get_home_remedies_logged:
  "snd (get_home_remedies str_lower self condition now) =
     log_session self
       (JDict [(''type'', JStr ''home_remedies''),
               (''input'', JStr condition),
               (''output'', fst (get_home_remedies str_lower self condition now)),
               (''timestamp'', JStr now)])"
  unfolding get_home_remedies_def Let_def
  by (simp add: case_prod_beta)

lemma matched_entries_Nil:
  "matched_entries str_lower condition = [] \<longleftrightarrow>
     (\<forall>key\<in>set (map fst HOME_REMEDIES).
        \<not> str_in key (str_lower condition)
        \<and> \<not> (\<exists>word\<in>set (split CHR ''_'' key). str_in word (str_lower condition)))"
  unfolding matched_entries_def filter_empty_conv key_matches_def any_in_iff
  by (auto simp: case_prod_beta)

text \<open>
  Claim C7, as amended. For every condition text that matches no remedy-table key
  (neither by the key occurring as a substring of the text nor by any underscore-split
  word of the key occurring in the text), \<open>get_remedies\<close> returns a fixed fallback
  remedy list, of four items, and \<open>matched_categories = ["general"]\<close>.
\<close>

theorem remedies_fallback:
  assumes "\<forall>key\<in>set (map fst HOME_REMEDIES).
        \<not> str_in key (str_lower condition)
        \<and> \<not> (\<exists>word\<in>set (split CHR ''_'' key). str_in word (str_lower condition))"
  shows "dict_get (fst (get_home_remedies str_lower self condition now)) ''remedies''
           = Some (JList
               [JStr ''Rest and stay hydrated with plenty of fluids'',
                JStr ''Monitor your symptoms carefully'',
                JStr ''Seek medical advice if symptoms worsen or persist'',
                JStr ''Maintain good hygiene and nutrition''])
       \<and> dict_get (fst (get_home_remedies str_lower self condition now)) ''matched_categories''
           = Some (JList [JStr ''general''])"
proof -
  from assms have "matched_entries str_lower condition = []"
    by (simp only: matched_entries_Nil)
  then show ?thesis
    unfolding get_home_remedies_fallback [OF \<open>matched_entries str_lower condition = []\<close>]
    by (simp add: str_list_def)
qed

theorem remedies_fallback_witness:
  "\<not> (\<exists>key\<in>set (map fst HOME_REMEDIES).
        str_in key (ascii_lower ''Itchy eyes'')
        \<or> (\<exists>word\<in>set (split CHR ''_'' key). str_in word (ascii_lower ''Itchy eyes'')))
   \<and> dict_get (fst (get_home_remedies ascii_lower \<lparr>sessions = [], google_api_key = None\<rparr>
         ''Itchy eyes'' ''2025-08-09T10:00:00'')) ''matched_categories''
       = Some (JList [JStr ''general''])"
proof -
  have h: "\<forall>key\<in>set (map fst HOME_REMEDIES).
        \<not> str_in key (ascii_lower ''Itchy eyes'')
        \<and> \<not> (\<exists>word\<in>set (split CHR ''_'' key). str_in word (ascii_lower ''Itchy eyes''))"
    by code_simp
  from remedies_fallback [where str_lower = ascii_lower and condition = "''Itchy eyes''", OF h] h show ?thesis by blast
qed

text \<open>
  Claim C7 as stated asks for a fallback list of three items. On the text
  \<open>Itchy eyes\<close>, which matches no remedy-table key, the \<open>remedies\<close> field has four.
\<close>

theorem remedies_fallback_three_items_counterexample:
  "matched_entries ascii_lower ''Itchy eyes'' = []
   \<and> Option.bind (dict_get (fst (get_home_remedies ascii_lower \<lparr>sessions = [], google_api_key = None\<rparr>
         ''Itchy eyes'' ''2025-08-09T10:00:00'')) ''remedies'') json_len = Some 4"
proof -
  have h: "matched_entries ascii_lower ''Itchy eyes'' = []"
    by code_simp
  show ?thesis
    unfolding get_home_remedies_fallback [OF h]
    using h by (simp add: str_list_def)
qed

text \<open>
  Claim C8. When the condition text matches more than one remedy-table key,
  \<open>get_remedies\<close> returns the concatenation of the matched keys' remedy lists with
  duplicates removed while preserving first-seen order, and \<open>matched_categories\<close> lists
  every matched key; \<open>get_remedies("cold and cough")\<close> yields \<open>matched_categories\<close>
  containing both \<open>cold\<close> and \<open>cough\<close>. The scenario rests on \<open>str.lower\<close> leaving
  the text \<open>cold and cough\<close> as it is.
\<close>

theorem remedies_multiple_matches:
  assumes "1 < length (matched_entries str_lower condition)"
  shows "dict_get (fst (get_home_remedies str_lower self condition now)) ''matched_categories''
           = Some (str_list (map fst (matched_entries str_lower condition)))
       \<and> dict_get (fst (get_home_remedies str_lower self condition now)) ''remedies''
           = Some (str_list (first_seen (concat (map snd (matched_entries str_lower condition)))))
       \<and> distinct (first_seen (concat (map snd (matched_entries str_lower condition))))
       \<and> set (first_seen (concat (map snd (matched_entries str_lower condition))))
           = set (concat (map snd (matched_entries str_lower condition)))
       \<and> (str_lower ''cold and cough'' = ''cold and cough'' \<longrightarrow>
            dict_get (fst (get_home_remedies str_lower self ''cold and cough'' now))
              ''matched_categories'' = Some (JList [JStr ''cough'', JStr ''cold'']))"
proof -
  from assms have ne: "matched_entries str_lower condition \<noteq> []" by auto
  have a: "dict_get (fst (get_home_remedies str_lower self condition now)) ''matched_categories''
           = Some (str_list (map fst (matched_entries str_lower condition)))"
    unfolding get_home_remedies_matched [OF ne] by simp
  have b: "dict_get (fst (get_home_remedies str_lower self condition now)) ''remedies''
           = Some (str_list (first_seen (concat (map snd (matched_entries str_lower condition)))))"
    unfolding get_home_remedies_matched [OF ne] by simp
  have c: "distinct (first_seen (concat (map snd (matched_entries str_lower condition))))"
    by (rule distinct_first_seen)
  have d: "set (first_seen (concat (map snd (matched_entries str_lower condition))))
           = set (concat (map snd (matched_entries str_lower condition)))"
    by (rule set_first_seen)
  have e: "str_lower ''cold and cough'' = ''cold and cough'' \<longrightarrow>
            dict_get (fst (get_home_remedies str_lower self ''cold and cough'' now))
              ''matched_categories'' = Some (JList [JStr ''cough'', JStr ''cold''])"
  proof
    assume hl: "str_lower ''cold and cough'' = ''cold and cough''"
    have "map fst (filter (\<lambda>(key, remedy_list). key_matches key ''cold and cough'')
        HOME_REMEDIES) = [''cough'', ''cold'']"
      by code_simp
    then have k: "map fst (matched_entries str_lower ''cold and cough'') = [''cough'', ''cold'']"
      by (simp only: matched_entries_def hl)
    then have ne2: "matched_entries str_lower ''cold and cough'' \<noteq> []" by auto
    show "dict_get (fst (get_home_remedies str_lower self ''cold and cough'' now))
           ''matched_categories'' = Some (JList [JStr ''cough'', JStr ''cold''])"
      unfolding get_home_remedies_matched [OF ne2] k by (simp add: str_list_def)
  qed
  show ?thesis
    by (rule conjI [OF a conjI [OF b conjI [OF c conjI [OF d e]]]])
qed

theorem remedies_multiple_matches_witness:
  "1 < length (matched_entries ascii_lower ''Cold and Cough'')
   \<and> dict_get (fst (get_home_remedies ascii_lower \<lparr>sessions = [], google_api_key = None\<rparr>
         ''Cold and Cough'' ''2025-08-09T10:00:00'')) ''matched_categories''
       = Some (JList [JStr ''cough'', JStr ''cold''])
   \<and> dict_get (fst (get_home_remedies ascii_lower \<lparr>sessions = [], google_api_key = None\<rparr>
         ''Cold and Cough'' ''2025-08-09T10:00:00'')) ''remedies''
       = Some (JList
           [JStr ''Honey and warm water (1 tsp honey in warm water)'',
            JStr ''Steam inhalation (hot water bowl with towel over head)'',
            JStr ''Gargle with warm salt water (1/2 tsp salt in warm water)'',
            JStr ''Stay hydrated with warm fluids'',
            JStr ''Elevate head while sleeping'',
            JStr ''Rest and get adequate sleep'',
            JStr ''Warm fluids (herbal tea, warm water with honey)'',
            JStr ''Saline nasal rinse or drops'',
            JStr ''Humidifier or steam inhalation'',
            JStr ''Throat lozenges for sore throat''])
   \<and> ascii_lower ''cold and cough'' = ''cold and cough''
   \<and> dict_get (fst (get_home_remedies ascii_lower \<lparr>sessions = [], google_api_key = None\<rparr>
         ''cold and cough'' ''2025-08-09T10:00:00'')) ''matched_categories''
       = Some (JList [JStr ''cough'', JStr ''cold''])"
proof -
  have h: "1 < length (matched_entries ascii_lower ''Cold and Cough'')"
    by code_simp
  have l: "ascii_lower ''cold and cough'' = ''cold and cough''"
    by code_simp
  have k: "str_list (map fst (matched_entries ascii_lower ''Cold and Cough''))
      = JList [JStr ''cough'', JStr ''cold'']"
    by code_simp
  have r: "str_list (first_seen (concat (map snd (matched_entries ascii_lower ''Cold and Cough''))))
      = JList
           [JStr ''Honey and warm water (1 tsp honey in warm water)'',
            JStr ''Steam inhalation (hot water bowl with towel over head)'',
            JStr ''Gargle with warm salt water (1/2 tsp salt in warm water)'',
            JStr ''Stay hydrated with warm fluids'',
            JStr ''Elevate head while sleeping'',
            JStr ''Rest and get adequate sleep'',
            JStr ''Warm fluids (herbal tea, warm water with honey)'',
            JStr ''Saline nasal rinse or drops'',
            JStr ''Humidifier or steam inhalation'',
            JStr ''Throat lozenges for sore throat'']"
    by code_simp
  from remedies_multiple_matches [OF h, of "\<lparr>sessions = [], google_api_key = None\<rparr>"
      "''2025-08-09T10:00:00''"]
  show ?thesis unfolding k r using h l by blast
qed

section \<open>Which calls reach the session log\<close>

lemma find_nearby_chemists_unconfigured:
  assumes "google_api_key self = None \<or> google_api_key self = Some []
     \<or> google_api_key self = Some ''your_google_places_api_key_here''"
  shows "snd (find_nearby_chemists self location radius_km search search_time now) = self"
  unfolding find_nearby_chemists_def using assms by auto

lemma find_nearby_chemists_logged:
  assumes "google_api_key self = Some key" and "key \<noteq> []"
    and "key \<noteq> ''your_google_places_api_key_here''"
  shows "snd (find_nearby_chemists self location radius_km search search_time now) =
     log_session self
       (JDict [(''type'', JStr ''chemist_search''),
               (''input'', JStr location),
               (''output'', fst (find_nearby_chemists self location radius_km search search_time now)),
               (''timestamp'', JStr now)])"
  unfolding find_nearby_chemists_def Let_def using assms by simp

text \<open>
  Claim C2, as amended. Every tool call that runs to the end of its normal path appends
  exactly one SessionRecord with fields type, input, output, timestamp to the Session
  Log, which then keeps its most recent 100 entries: \<open>analyze_symptoms\<close> on a text with
  no emergency keyword, \<open>suggest_medicine\<close> on a condition mapped to a medicine-table
  key, every \<open>get_remedies\<close> call, and \<open>find_chemists\<close> with a configured API key,
  whether the search succeeds or fails. The early returns leave the Session Log as it
  was: \<open>analyze_symptoms\<close> with triage level emergency, the pharmacist referral of
  \<open>suggest_medicine\<close>, and \<open>find_chemists\<close> without a configured API key.
\<close>

theorem session_record_appended:
  "((\<forall>keyword\<in>set EMERGENCY_KEYWORDS. \<not> str_in keyword (str_lower symptoms)) \<longrightarrow>
      sessions (snd (analyze_symptoms str_lower self symptoms age location now))
        = most_recent 100 (sessions self @
            [SessionRecord ''symptom_analysis'' symptoms
               (fst (analyze_symptoms str_lower self symptoms age location now)) now]))
   \<and> ((\<exists>keyword\<in>set EMERGENCY_KEYWORDS. str_in keyword (str_lower symptoms)) \<longrightarrow>
      snd (analyze_symptoms str_lower self symptoms age location now) = self)
   \<and> (map_condition_to_medicine (str_lower condition) \<noteq> [] \<longrightarrow>
      sessions (snd (suggest_medicine str_lower self condition age now))
        = most_recent 100 (sessions self @
            [SessionRecord ''medicine_suggestion'' condition
               (fst (suggest_medicine str_lower self condition age now)) now]))
   \<and> (map_condition_to_medicine (str_lower condition) = [] \<longrightarrow>
      snd (suggest_medicine str_lower self condition age now) = self)
   \<and> sessions (snd (get_home_remedies str_lower self condition now))
        = most_recent 100 (sessions self @
            [SessionRecord ''home_remedies'' condition
               (fst (get_home_remedies str_lower self condition now)) now])
   \<and> (google_api_key self = Some key \<and> key \<noteq> []
        \<and> key \<noteq> ''your_google_places_api_key_here'' \<longrightarrow>
      sessions (snd (find_nearby_chemists self place radius_km search search_time now))
        = most_recent 100 (sessions self @
            [SessionRecord ''chemist_search'' place
               (fst (find_nearby_chemists self place radius_km search search_time now)) now]))
   \<and> (google_api_key self = None \<or> google_api_key self = Some []
        \<or> google_api_key self = Some ''your_google_places_api_key_here'' \<longrightarrow>
      snd (find_nearby_chemists self place radius_km search search_time now) = self)"
proof (intro conjI impI)
  assume "\<forall>keyword\<in>set EMERGENCY_KEYWORDS. \<not> str_in keyword (str_lower symptoms)"
  then have e: "detect_emergencies (str_lower symptoms) = []"
    by (simp only: detect_emergencies_empty)
  show "sessions (snd (analyze_symptoms str_lower self symptoms age location now))
        = most_recent 100 (sessions self @
            [SessionRecord ''symptom_analysis'' symptoms
               (fst (analyze_symptoms str_lower self symptoms age location now)) now])"
    by (simp only: analyze_symptoms_logged
        [where str_lower = str_lower and symptoms = symptoms, OF e] sessions_log_session SessionRecord_def)
next
  assume "\<exists>keyword\<in>set EMERGENCY_KEYWORDS. str_in keyword (str_lower symptoms)"
  then have ne: "detect_emergencies (str_lower symptoms) \<noteq> []"
    by (simp only: detect_emergencies_empty) blast
  show "snd (analyze_symptoms str_lower self symptoms age location now) = self"
    by (simp only: analyze_symptoms_emergency
        [where str_lower = str_lower and symptoms = symptoms, OF ne] snd_conv)
next
  assume "map_condition_to_medicine (str_lower condition) \<noteq> []"
  with map_condition_to_medicine_range [of "str_lower condition"]
  have "map_condition_to_medicine (str_lower condition)
      \<in> set [''fever'', ''headache'', ''pain'', ''cold'']"
    by auto
  then have n: "get_or BASIC_MEDICINES (map_condition_to_medicine (str_lower condition)) [] \<noteq> []"
    by (simp only: BASIC_MEDICINES_keys)
  show "sessions (snd (suggest_medicine str_lower self condition age now))
        = most_recent 100 (sessions self @
            [SessionRecord ''medicine_suggestion'' condition
               (fst (suggest_medicine str_lower self condition age now)) now])"
    by (simp only: suggest_medicine_logged
        [where str_lower = str_lower and condition = condition, OF n] sessions_log_session SessionRecord_def)
next
  assume "map_condition_to_medicine (str_lower condition) = []"
  then have "get_or BASIC_MEDICINES (map_condition_to_medicine (str_lower condition)) [] = []"
    by (simp add: BASIC_MEDICINES_def get_or_def)
  then show "snd (suggest_medicine str_lower self condition age now) = self"
    by (simp only: suggest_medicine_referral [where str_lower = str_lower and condition = condition] snd_conv)
next
  show "sessions (snd (get_home_remedies str_lower self condition now))
        = most_recent 100 (sessions self @
            [SessionRecord ''home_remedies'' condition
               (fst (get_home_remedies str_lower self condition now)) now])"
    by (simp only: get_home_remedies_logged sessions_log_session SessionRecord_def)
next
  assume "google_api_key self = Some key \<and> key \<noteq> []
        \<and> key \<noteq> ''your_google_places_api_key_here''"
  then have k: "google_api_key self = Some key" "key \<noteq> []"
    "key \<noteq> ''your_google_places_api_key_here''"
    by simp_all
  show "sessions (snd (find_nearby_chemists self place radius_km search search_time now))
        = most_recent 100 (sessions self @
            [SessionRecord ''chemist_search'' place
               (fst (find_nearby_chemists self place radius_km search search_time now)) now])"
    by (simp only: find_nearby_chemists_logged [OF k] sessions_log_session
        SessionRecord_def)
next
  assume "google_api_key self = None \<or> google_api_key self = Some []
        \<or> google_api_key self = Some ''your_google_places_api_key_here''"
  then show "snd (find_nearby_chemists self place radius_km search search_time now) = self"
    by (rule find_nearby_chemists_unconfigured)
qed

theorem session_record_appended_witness:
  "\<not> (\<exists>keyword\<in>set EMERGENCY_KEYWORDS. str_in keyword (ascii_lower ''I have fever''))
   \<and> sessions (snd (analyze_symptoms ascii_lower
         \<lparr>sessions = [], google_api_key = Some ''test-key''\<rparr>
         ''I have fever'' ''adult'' None ''2025-08-09T10:00:00''))
       = [SessionRecord ''symptom_analysis'' ''I have fever''
           (fst (analyze_symptoms ascii_lower \<lparr>sessions = [], google_api_key = Some ''test-key''\<rparr>
              ''I have fever'' ''adult'' None ''2025-08-09T10:00:00''))
           ''2025-08-09T10:00:00'']
   \<and> map_condition_to_medicine (ascii_lower ''Headache'') \<noteq> []
   \<and> sessions (snd (suggest_medicine ascii_lower
         \<lparr>sessions = [], google_api_key = Some ''test-key''\<rparr>
         ''Headache'' ''adult'' ''2025-08-09T10:00:00''))
       = [SessionRecord ''medicine_suggestion'' ''Headache''
           (fst (suggest_medicine ascii_lower \<lparr>sessions = [], google_api_key = Some ''test-key''\<rparr>
              ''Headache'' ''adult'' ''2025-08-09T10:00:00''))
           ''2025-08-09T10:00:00'']
   \<and> sessions (snd (find_nearby_chemists
         \<lparr>sessions = [], google_api_key = Some ''test-key''\<rparr>
         ''Pune'' (JInt 5) (Inl ''timed out'') ''2025-08-09T09:59:58''
              ''2025-08-09T10:00:00''))
       = [SessionRecord ''chemist_search'' ''Pune''
           (fst (find_nearby_chemists \<lparr>sessions = [], google_api_key = Some ''test-key''\<rparr>
              ''Pune'' (JInt 5) (Inl ''timed out'') ''2025-08-09T09:59:58''
              ''2025-08-09T10:00:00''))
           ''2025-08-09T10:00:00'']
   \<and> (\<exists>keyword\<in>set EMERGENCY_KEYWORDS. str_in keyword (ascii_lower ''Chest pain''))
   \<and> snd (analyze_symptoms ascii_lower \<lparr>sessions = [], google_api_key = None\<rparr>
         ''Chest pain'' ''adult'' None ''2025-08-09T10:00:00'')
       = \<lparr>sessions = [], google_api_key = None\<rparr>
   \<and> map_condition_to_medicine (ascii_lower ''Nausea'') = []
   \<and> snd (suggest_medicine ascii_lower \<lparr>sessions = [], google_api_key = None\<rparr>
         ''Nausea'' ''adult'' ''2025-08-09T10:00:00'')
       = \<lparr>sessions = [], google_api_key = None\<rparr>
   \<and> snd (find_nearby_chemists \<lparr>sessions = [], google_api_key = None\<rparr>
         ''Pune'' (JInt 5) (Inl ''timed out'') ''2025-08-09T09:59:58''
              ''2025-08-09T10:00:00'')
       = \<lparr>sessions = [], google_api_key = None\<rparr>"
proof -
  have a1: "\<forall>keyword\<in>set EMERGENCY_KEYWORDS. \<not> str_in keyword (ascii_lower ''I have fever'')"
    by code_simp
  have a2: "map_condition_to_medicine (ascii_lower ''Headache'') \<noteq> []"
    by code_simp
  have a3: "google_api_key \<lparr>sessions = [], google_api_key = Some ''test-key''\<rparr>
        = Some ''test-key''
      \<and> ''test-key'' \<noteq> [] \<and> ''test-key'' \<noteq> ''your_google_places_api_key_here''"
    by simp
  have b1: "\<exists>keyword\<in>set EMERGENCY_KEYWORDS. str_in keyword (ascii_lower ''Chest pain'')"
    by code_simp
  have b2: "map_condition_to_medicine (ascii_lower ''Nausea'') = []"
    by code_simp
  have b3: "google_api_key \<lparr>sessions = [], google_api_key = None\<rparr> = None
      \<or> google_api_key \<lparr>sessions = [], google_api_key = None\<rparr> = Some []
      \<or> google_api_key \<lparr>sessions = [], google_api_key = None\<rparr>
          = Some ''your_google_places_api_key_here''"
    by simp
  have one: "\<And>r. most_recent 100
      (sessions \<lparr>sessions = [], google_api_key = Some ''test-key''\<rparr> @ [r]) = [r::json]"
    by (simp add: most_recent_def)
  note A = session_record_appended
    [where str_lower = ascii_lower and search_time = "''2025-08-09T09:59:58''"
       and symptoms = "''I have fever''" and condition = "''Headache''"
       and self = "\<lparr>sessions = [], google_api_key = Some ''test-key''\<rparr>"
       and age = "''adult''" and location = None and now = "''2025-08-09T10:00:00''"
       and key = "''test-key''" and place = "''Pune''" and radius_km = "JInt 5"
       and search = "Inl ''timed out''", unfolded one]
  note B = session_record_appended
    [where str_lower = ascii_lower and search_time = "''2025-08-09T09:59:58''"
       and symptoms = "''Chest pain''" and condition = "''Nausea''"
       and self = "\<lparr>sessions = [], google_api_key = None\<rparr>"
       and age = "''adult''" and location = None and now = "''2025-08-09T10:00:00''"
       and key = "''test-key''" and place = "''Pune''" and radius_km = "JInt 5"
       and search = "Inl ''timed out''"]
  from A a1 a2 a3 B b1 b2 b3 show ?thesis by blast
qed

text \<open>
  Claim C2 as stated has every \<open>analyze_symptoms\<close> call logged, those with triage
  level emergency included. The emergency result is returned before the log is
  touched: on \<open>Chest pain\<close> the triage level is emergency and the log stays empty.
\<close>

theorem emergency_not_logged_counterexample:
  "dict_get (fst (analyze_symptoms ascii_lower \<lparr>sessions = [], google_api_key = None\<rparr>
       ''Chest pain'' ''adult'' None ''2025-08-09T10:00:00'')) ''triage_level''
     = Some (JStr ''emergency'')
   \<and> sessions (snd (analyze_symptoms ascii_lower \<lparr>sessions = [], google_api_key = None\<rparr>
       ''Chest pain'' ''adult'' None ''2025-08-09T10:00:00'')) = []"
proof -
  have ne: "detect_emergencies (ascii_lower ''Chest pain'') \<noteq> []"
    by code_simp
  show ?thesis
    unfolding analyze_symptoms_emergency
      [where str_lower = ascii_lower and symptoms = "''Chest pain''", OF ne] by simp
qed

section \<open>The limit of \<open>get_session_logs\<close>\<close>

text \<open>
  Claim C6. For every limit value, \<open>get_session_logs(limit)\<close> returns a result whose
  \<open>recent_sessions\<close> field is exactly the most recent \<open>limit\<close> entries of the Session Log
  and whose \<open>total_sessions\<close> field is the number of entries; the default limit is 10.
  For a positive limit this is \<open>get_session_logs_positive\<close>. At \<open>limit = 0\<close> the most
  recent 0 entries are none, yet the slice \<open>sessions[-0:]\<close> is the whole log: after one
  \<open>get_remedies\<close> call the log holds one record and \<open>get_session_logs(0)\<close> returns it.
\<close>

theorem get_session_logs_limit_zero:
  "Option.bind (dict_get (get_session_logs
       (snd (get_home_remedies ascii_lower \<lparr>sessions = [], google_api_key = None\<rparr>
          ''Itchy eyes'' ''2025-08-09T10:00:00'')) 0) ''recent_sessions'') json_len
     = Some 1
   \<and> dict_get (get_session_logs
       (snd (get_home_remedies ascii_lower \<lparr>sessions = [], google_api_key = None\<rparr>
          ''Itchy eyes'' ''2025-08-09T10:00:00'')) 0) ''total_sessions''
     = Some (JInt 1)"
proof -
  have s: "length (sessions (snd (get_home_remedies ascii_lower \<lparr>sessions = [], google_api_key = None\<rparr>
          ''Itchy eyes'' ''2025-08-09T10:00:00''))) = 1"
    unfolding get_home_remedies_logged
      [where self = "\<lparr>sessions = [], google_api_key = None\<rparr>"]
    by (simp add: sessions_log_session length_most_recent)
  show ?thesis
    using s by (simp add: get_session_logs_zero get_session_logs_total)
qed

end
